theory Spec2Isabelle
  imports Main
begin

section \<open>JavaScript values and \<open>JSON.stringify\<close>\<close>

text \<open>
  The server in \<^verbatim>\<open>src/github/index.ts\<close> builds its request bodies with
  \<^verbatim>\<open>JSON.stringify\<close> and its URLs with template literals. Both convert numbers to
  text with the language's own \<^verbatim>\<open>Number::toString\<close>, which is not code of the
  repository: the number type \<open>'n\<close> and its two primitives are parameters of the model.
\<close>

record 'n numops =
  num_to_string :: "'n \<Rightarrow> string"
  num_is_finite :: "'n \<Rightarrow> bool"

text \<open>
  A value as \<^verbatim>\<open>JSON.stringify\<close> sees it. An object is the list of its own enumerable
  properties in enumeration order. Strings are lists of code units below 256.
\<close>

datatype 'n jsval =
    JUndefined
  | JNull
  | JBool bool
  | JNum 'n
  | JStr string
  | JArr "'n jsval list"
  | JObj "(string \<times> 'n jsval) list"

type_synonym 'n jsobj = "(string \<times> 'n jsval) list"

text \<open>\<^verbatim>\<open>Array.prototype.join\<close> on an array of strings.\<close>

fun join :: "string \<Rightarrow> string list \<Rightarrow> string" where
  "join sep [] = []"
| "join sep [x] = x"
| "join sep (x # y # ys) = x @ sep @ join sep (y # ys)"

definition hex_digit :: "nat \<Rightarrow> char" where
  "hex_digit d = (if d < 10 then char_of (48 + d) else char_of (87 + d))"

text \<open>
  One code unit inside a JSON string literal: the short escapes, \<^verbatim>\<open>\u00xx\<close> for the
  other control characters, the unit itself otherwise.
\<close>

definition quote_char :: "char \<Rightarrow> string" where
  "quote_char c =
    (if c = CHR 0x08 then [CHR 0x5C, CHR ''b'']
     else if c = CHR 0x09 then [CHR 0x5C, CHR ''t'']
     else if c = CHR 0x0A then [CHR 0x5C, CHR ''n'']
     else if c = CHR 0x0C then [CHR 0x5C, CHR ''f'']
     else if c = CHR 0x0D then [CHR 0x5C, CHR ''r'']
     else if c = CHR 0x22 then [CHR 0x5C, CHR 0x22]
     else if c = CHR 0x5C then [CHR 0x5C, CHR 0x5C]
     else if (of_char c :: nat) < 32
       then [CHR 0x5C, CHR ''u'', CHR ''0'', CHR ''0'',
             hex_digit (of_char c div 16), hex_digit (of_char c mod 16)]
     else [c])"

definition QuoteJSONString :: "string \<Rightarrow> string" where
  "QuoteJSONString s = [CHR 0x22] @ concat (map quote_char s) @ [CHR 0x22]"

text \<open>
  The brackets around the serialized members of an object or the elements of an array:
  \<open>gap\<close> is the indentation unit (empty for the compact form), \<open>stepback\<close> the
  indentation of the enclosing level.
\<close>

definition wrap :: "string \<Rightarrow> string \<Rightarrow> string \<Rightarrow> string \<Rightarrow> string list \<Rightarrow> string" where
  "wrap l r gap stepback partial =
    (if partial = [] then l @ r
     else if gap = [] then l @ join '','' partial @ r
     else l @ [CHR 0x0A] @ (stepback @ gap)
            @ join ('','' @ [CHR 0x0A] @ (stepback @ gap)) partial
            @ [CHR 0x0A] @ stepback @ r)"

definition member_text :: "string \<Rightarrow> string \<times> string \<Rightarrow> string" where
  "member_text gap m =
     QuoteJSONString (fst m) @ '':'' @ (if gap = [] then [] else '' '') @ snd m"

text \<open>
  \<open>ser ops gap indent v\<close> is the text of \<open>v\<close>, or \<open>None\<close> where the language gives
  \<^verbatim>\<open>undefined\<close>. A property whose value has no text is left out of its object; an
  array element that has none is written \<^verbatim>\<open>null\<close>; a number that is not finite is
  written \<^verbatim>\<open>null\<close>.
\<close>

fun ser :: "'n numops \<Rightarrow> string \<Rightarrow> string \<Rightarrow> 'n jsval \<Rightarrow> string option" where
  "ser ops gap ind JUndefined = None"
| "ser ops gap ind JNull = Some ''null''"
| "ser ops gap ind (JBool b) = Some (if b then ''true'' else ''false'')"
| "ser ops gap ind (JNum n) =
     Some (if num_is_finite ops n then num_to_string ops n else ''null'')"
| "ser ops gap ind (JStr s) = Some (QuoteJSONString s)"
| "ser ops gap ind (JArr xs) =
     Some (wrap ''['' '']'' gap ind
       (map (\<lambda>x. case ser ops gap (ind @ gap) x of None \<Rightarrow> ''null'' | Some s \<Rightarrow> s) xs))"
| "ser ops gap ind (JObj ps) =
     Some (wrap ''{'' ''}'' gap ind
       (map (member_text gap)
         (concat (map (\<lambda>(k, v). case ser ops gap (ind @ gap) v of
                                   None \<Rightarrow> [] | Some s \<Rightarrow> [(k, s)]) ps))))"

text \<open>The members an object is written with: key and text of the value, in order.\<close>

definition members :: "'n numops \<Rightarrow> string \<Rightarrow> string \<Rightarrow> 'n jsobj \<Rightarrow> (string \<times> string) list" where
  "members ops gap ind ps =
     concat (map (\<lambda>(k, v). case ser ops gap ind v of None \<Rightarrow> [] | Some s \<Rightarrow> [(k, s)]) ps)"

text \<open>\<^verbatim>\<open>JSON.stringify(v)\<close> and \<^verbatim>\<open>JSON.stringify(v, null, 2)\<close>.\<close>

definition JSON_stringify :: "'n numops \<Rightarrow> 'n jsval \<Rightarrow> string option" where
  "JSON_stringify ops v = ser ops [] [] v"

definition JSON_stringify_2 :: "'n numops \<Rightarrow> 'n jsval \<Rightarrow> string option" where
  "JSON_stringify_2 ops v = ser ops ''  '' [] v"

section \<open>Requests, responses and errors\<close>

record request =
  req_method :: string
  req_url :: string
  req_headers :: "(string \<times> string) list"
  req_body :: "string option"

record response =
  resp_status :: nat
  resp_statusText :: string
  resp_body :: string

text \<open>\<^verbatim>\<open>response.ok\<close> of the fetch library: the status is in the range 200 to 299.\<close>

definition ok :: "response \<Rightarrow> bool" where
  "ok r = (200 \<le> resp_status r \<and> resp_status r < 300)"

text \<open>An element of the path of a validation issue is a key or an index.\<close>

datatype 'n path_elem = PKey string | PIdx 'n

record 'n zod_issue =
  issue_path :: "'n path_elem list"
  issue_message :: string

text \<open>
  What the code can throw: \<open>Error m\<close> is \<^verbatim>\<open>new Error(m)\<close>, \<open>ZodError\<close> an instance of
  \<^verbatim>\<open>z.ZodError\<close> with its issues, \<open>FetchError\<close> a rejected network call and
  \<open>JsonError\<close> a response body that is not JSON.
\<close>

datatype 'n thrown =
    Error string
  | ZodError "'n zod_issue list"
  | FetchError string
  | JsonError string

datatype side = LEFT | RIGHT

fun side_text :: "side \<Rightarrow> string" where
  "side_text LEFT = ''LEFT''"
| "side_text RIGHT = ''RIGHT''"

text \<open>
  The parsed arguments of the two tools, as the handler destructures them. The fields of
  \<open>update_args\<close> other than owner, repo and pull number are the rest object \<open>ua_options\<close>.
\<close>

record 'n create_args =
  ca_owner :: string
  ca_repo :: string
  ca_pull_number :: 'n
  ca_body :: string
  ca_commit_id :: string
  ca_path :: string
  ca_line :: 'n
  ca_side :: "side option"
  ca_start_line :: "'n option"
  ca_start_side :: "side option"

record 'n update_args =
  ua_owner :: string
  ua_repo :: string
  ua_pull_number :: 'n
  ua_options :: "'n jsobj"

datatype response_schema = GitHubPRReviewCommentSchema | GitHubPullRequestSchema

text \<open>
  The surroundings of the two operations: the access token read at start-up, the network,
  the JSON reader of a response, and the \<^verbatim>\<open>parse\<close> methods of the four schemas of
  \<^verbatim>\<open>schemas.ts\<close>, which is not among the sources. A \<^verbatim>\<open>parse\<close> that throws is
  \<open>Inl\<close> of the issues of its \<^verbatim>\<open>ZodError\<close>.
\<close>

record 'n env =
  numops :: "'n numops"
  GITHUB_PERSONAL_ACCESS_TOKEN :: string
  fetch :: "request \<Rightarrow> string + response"
  response_json :: "response \<Rightarrow> string + 'n jsval"
  CreatePRReviewCommentSchema_parse :: "'n jsobj \<Rightarrow> 'n zod_issue list + 'n create_args"
  UpdatePullRequestSchema_parse :: "'n jsobj \<Rightarrow> 'n zod_issue list + 'n update_args"
  GitHubPRReviewCommentSchema_parse :: "'n jsval \<Rightarrow> 'n zod_issue list + 'n jsval"
  GitHubPullRequestSchema_parse :: "'n jsval \<Rightarrow> 'n zod_issue list + 'n jsval"

text \<open>What an operation did, in order.\<close>

datatype 'n event =
    Fetch request
  | ReadJson response
  | Validate response_schema "'n jsval"

fun issued :: "'n event list \<Rightarrow> request list" where
  "issued [] = []"
| "issued (Fetch r # es) = r # issued es"
| "issued (e # es) = issued es"

fun validated :: "'n event list \<Rightarrow> 'n jsval list" where
  "validated [] = []"
| "validated (Validate s v # es) = v # validated es"
| "validated (e # es) = validated es"

section \<open>The two operations\<close>

definition request_headers :: "string \<Rightarrow> (string \<times> string) list" where
  "request_headers token =
     [(''Authorization'', ''token '' @ token),
      (''Accept'', ''application/vnd.github.v3+json''),
      (''User-Agent'', ''github-mcp-server''),
      (''Content-Type'', ''application/json'')]"

text \<open>The object literal that \<^verbatim>\<open>createPRReviewComment\<close> serializes.\<close>

definition review_comment_object ::
  "string \<Rightarrow> string \<Rightarrow> string \<Rightarrow> 'n \<Rightarrow> side option \<Rightarrow> 'n option \<Rightarrow> side option \<Rightarrow> 'n jsobj" where
  "review_comment_object body commitId path line side startLine startSide =
     [(''body'', JStr body),
      (''commit_id'', JStr commitId),
      (''path'', JStr path),
      (''line'', JNum line),
      (''side'', JStr (case side of None \<Rightarrow> ''RIGHT'' | Some s \<Rightarrow> side_text s)),
      (''start_line'', (case startLine of None \<Rightarrow> JUndefined | Some n \<Rightarrow> JNum n)),
      (''start_side'', (case startSide of None \<Rightarrow> JUndefined | Some s \<Rightarrow> JStr (side_text s)))]"

definition createPRReviewComment_request ::
  "'n env \<Rightarrow> string \<Rightarrow> string \<Rightarrow> 'n \<Rightarrow> string \<Rightarrow> string \<Rightarrow> string \<Rightarrow> 'n
     \<Rightarrow> side option \<Rightarrow> 'n option \<Rightarrow> side option \<Rightarrow> request" where
  "createPRReviewComment_request env owner repo pullNumber body commitId path line side startLine startSide =
     \<lparr>req_method = ''POST'',
      req_url = ''https://api.github.com/repos/'' @ owner @ ''/'' @ repo @ ''/pulls/''
                  @ num_to_string (numops env) pullNumber @ ''/comments'',
      req_headers = request_headers (GITHUB_PERSONAL_ACCESS_TOKEN env),
      req_body = JSON_stringify (numops env)
                   (JObj (review_comment_object body commitId path line side startLine startSide))\<rparr>"

definition createPRReviewComment ::
  "'n env \<Rightarrow> string \<Rightarrow> string \<Rightarrow> 'n \<Rightarrow> string \<Rightarrow> string \<Rightarrow> string \<Rightarrow> 'n
     \<Rightarrow> side option \<Rightarrow> 'n option \<Rightarrow> side option \<Rightarrow> 'n event list \<times> ('n thrown + 'n jsval)" where
  "createPRReviewComment env owner repo pullNumber body commitId path line side startLine startSide =
     (let req = createPRReviewComment_request env owner repo pullNumber body commitId path line
                  side startLine startSide
      in case fetch env req of
           Inl m \<Rightarrow> ([Fetch req], Inl (FetchError m))
         | Inr resp \<Rightarrow>
             if \<not> ok resp
             then ([Fetch req], Inl (Error (''GitHub API error: '' @ resp_statusText resp)))
             else (case response_json env resp of
                     Inl m \<Rightarrow> ([Fetch req, ReadJson resp], Inl (JsonError m))
                   | Inr v \<Rightarrow>
                       (case GitHubPRReviewCommentSchema_parse env v of
                          Inl issues \<Rightarrow>
                            ([Fetch req, ReadJson resp, Validate GitHubPRReviewCommentSchema v],
                             Inl (ZodError issues))
                        | Inr comment \<Rightarrow>
                            ([Fetch req, ReadJson resp, Validate GitHubPRReviewCommentSchema v],
                             Inr comment))))"

definition updatePullRequest_request ::
  "'n env \<Rightarrow> string \<Rightarrow> string \<Rightarrow> 'n \<Rightarrow> 'n jsobj \<Rightarrow> request" where
  "updatePullRequest_request env owner repo pullNumber options =
     \<lparr>req_method = ''PATCH'',
      req_url = ''https://api.github.com/repos/'' @ owner @ ''/'' @ repo @ ''/pulls/''
                  @ num_to_string (numops env) pullNumber,
      req_headers = request_headers (GITHUB_PERSONAL_ACCESS_TOKEN env),
      req_body = JSON_stringify (numops env) (JObj options)\<rparr>"

definition updatePullRequest ::
  "'n env \<Rightarrow> string \<Rightarrow> string \<Rightarrow> 'n \<Rightarrow> 'n jsobj \<Rightarrow> 'n event list \<times> ('n thrown + 'n jsval)" where
  "updatePullRequest env owner repo pullNumber options =
     (let req = updatePullRequest_request env owner repo pullNumber options
      in case fetch env req of
           Inl m \<Rightarrow> ([Fetch req], Inl (FetchError m))
         | Inr resp \<Rightarrow>
             if \<not> ok resp
             then ([Fetch req], Inl (Error (''GitHub API error: '' @ resp_statusText resp)))
             else (case response_json env resp of
                     Inl m \<Rightarrow> ([Fetch req, ReadJson resp], Inl (JsonError m))
                   | Inr v \<Rightarrow>
                       (case GitHubPullRequestSchema_parse env v of
                          Inl issues \<Rightarrow>
                            ([Fetch req, ReadJson resp, Validate GitHubPullRequestSchema v],
                             Inl (ZodError issues))
                        | Inr pullRequest \<Rightarrow>
                            ([Fetch req, ReadJson resp, Validate GitHubPullRequestSchema v],
                             Inr pullRequest))))"

section \<open>The tool call handler\<close>

record 'n call_tool_request =
  params_name :: string
  params_arguments :: "'n jsobj option"

datatype content_item = TextContent "string option"

text \<open>The body of the \<^verbatim>\<open>try\<close> block.\<close>

definition handler_try ::
  "'n env \<Rightarrow> 'n call_tool_request \<Rightarrow> 'n event list \<times> ('n thrown + content_item list)" where
  "handler_try env request =
     (case params_arguments request of
        None \<Rightarrow> ([], Inl (Error ''Arguments are required''))
      | Some arguments \<Rightarrow>
          if params_name request = ''update_pull_request'' then
            (case UpdatePullRequestSchema_parse env arguments of
               Inl issues \<Rightarrow> ([], Inl (ZodError issues))
             | Inr args \<Rightarrow>
                 (case updatePullRequest env (ua_owner args) (ua_repo args)
                         (ua_pull_number args) (ua_options args) of
                    (trace, Inl e) \<Rightarrow> (trace, Inl e)
                  | (trace, Inr pullRequest) \<Rightarrow>
                      (trace, Inr [TextContent (JSON_stringify_2 (numops env) pullRequest)])))
          else if params_name request = ''create_pr_review_comment'' then
            (case CreatePRReviewCommentSchema_parse env arguments of
               Inl issues \<Rightarrow> ([], Inl (ZodError issues))
             | Inr args \<Rightarrow>
                 (case createPRReviewComment env (ca_owner args) (ca_repo args)
                         (ca_pull_number args) (ca_body args) (ca_commit_id args) (ca_path args)
                         (ca_line args) (ca_side args) (ca_start_line args) (ca_start_side args) of
                    (trace, Inl e) \<Rightarrow> (trace, Inl e)
                  | (trace, Inr comment) \<Rightarrow>
                      (trace, Inr [TextContent (JSON_stringify_2 (numops env) comment)])))
          else ([], Inl (Error (''Unknown tool: '' @ params_name request))))"

fun path_elem_text :: "'n numops \<Rightarrow> 'n path_elem \<Rightarrow> string" where
  "path_elem_text ops (PKey k) = k"
| "path_elem_text ops (PIdx i) = num_to_string ops i"

definition issue_text :: "'n numops \<Rightarrow> 'n zod_issue \<Rightarrow> string" where
  "issue_text ops e = join ''.'' (map (path_elem_text ops) (issue_path e)) @ '': '' @ issue_message e"

text \<open>The \<^verbatim>\<open>catch\<close> block: what is thrown on, for what was caught.\<close>

definition handler_catch :: "'n numops \<Rightarrow> 'n thrown \<Rightarrow> 'n thrown" where
  "handler_catch ops error =
     (case error of
        ZodError errors \<Rightarrow>
          Error (''Invalid arguments: '' @ join '', '' (map (issue_text ops) errors))
      | _ \<Rightarrow> error)"

definition handler ::
  "'n env \<Rightarrow> 'n call_tool_request \<Rightarrow> 'n event list \<times> ('n thrown + content_item list)" where
  "handler env request =
     (case handler_try env request of
        (trace, Inl error) \<Rightarrow> (trace, Inl (handler_catch (numops env) error))
      | (trace, Inr result) \<Rightarrow> (trace, Inr result))"

section \<open>Integers as numbers, and test doubles\<close>

text \<open>
  The examples below run the model on the integers, written in decimal as
  \<^verbatim>\<open>Number::toString\<close> writes the integers the tests use.
\<close>

definition digit_char :: "nat \<Rightarrow> char" where
  "digit_char d = char_of (48 + d)"

fun dec_nat :: "nat \<Rightarrow> string" where
  "dec_nat n = (if n < 10 then [digit_char n] else dec_nat (n div 10) @ [digit_char (n mod 10)])"

declare dec_nat.simps [simp del]

definition dec_int :: "int \<Rightarrow> string" where
  "dec_int i = (if i < 0 then ''-'' @ dec_nat (nat (- i)) else dec_nat (nat i))"

definition int_ops :: "int numops" where
  "int_ops = \<lparr>num_to_string = dec_int, num_is_finite = (\<lambda>_. True)\<rparr>"

definition get_str :: "'n jsobj \<Rightarrow> string \<Rightarrow> string option" where
  "get_str args k = (case map_of args k of Some (JStr s) \<Rightarrow> Some s | _ \<Rightarrow> None)"

definition get_num :: "'n jsobj \<Rightarrow> string \<Rightarrow> 'n option" where
  "get_num args k = (case map_of args k of Some (JNum n) \<Rightarrow> Some n | _ \<Rightarrow> None)"

definition get_side :: "'n jsobj \<Rightarrow> string \<Rightarrow> side option" where
  "get_side args k =
     (case map_of args k of
        Some (JStr s) \<Rightarrow> if s = ''LEFT'' then Some LEFT else if s = ''RIGHT'' then Some RIGHT else None
      | _ \<Rightarrow> None)"

definition required :: "string \<Rightarrow> bool \<Rightarrow> 'n zod_issue list" where
  "required k present =
     (if present then [] else [\<lparr>issue_path = [PKey k], issue_message = ''Required''\<rparr>])"

text \<open>
  Modelled from the spec: the input schema of \<^verbatim>\<open>update_pull_request\<close> is declared in
  \<^verbatim>\<open>schemas.ts\<close>, which is not among the sources. This stand-in asks for owner, repo
  and pull number, reports each one that is missing (the message text is a placeholder),
  and passes the other properties on. It only instantiates the parameter \<open>UpdatePullRequestSchema_parse\<close> in the examples.
\<close>

definition test_update_parse :: "int jsobj \<Rightarrow> int zod_issue list + int update_args" where
  "test_update_parse args =
     (case (get_str args ''owner'', get_str args ''repo'', get_num args ''pull_number'') of
        (Some ow, Some rp, Some n) \<Rightarrow>
          Inr \<lparr>ua_owner = ow, ua_repo = rp, ua_pull_number = n,
               ua_options = filter (\<lambda>(k, v). k \<noteq> ''owner'' \<and> k \<noteq> ''repo'' \<and> k \<noteq> ''pull_number'') args\<rparr>
      | (ow, rp, n) \<Rightarrow>
          Inl (required ''owner'' (ow \<noteq> None) @ required ''repo'' (rp \<noteq> None)
                 @ required ''pull_number'' (n \<noteq> None)))"

text \<open>
  Modelled from the spec: the input schema of \<^verbatim>\<open>create_pr_review_comment\<close> is declared
  in \<^verbatim>\<open>schemas.ts\<close>, which is not among the sources. This stand-in asks for the seven
  required fields and reads the three optional ones. It only instantiates the parameter
  \<open>CreatePRReviewCommentSchema_parse\<close> in the examples.
\<close>

definition test_create_parse :: "int jsobj \<Rightarrow> int zod_issue list + int create_args" where
  "test_create_parse args =
     (let issues = required ''owner'' (get_str args ''owner'' \<noteq> None)
                 @ required ''repo'' (get_str args ''repo'' \<noteq> None)
                 @ required ''pull_number'' (get_num args ''pull_number'' \<noteq> None)
                 @ required ''body'' (get_str args ''body'' \<noteq> None)
                 @ required ''commit_id'' (get_str args ''commit_id'' \<noteq> None)
                 @ required ''path'' (get_str args ''path'' \<noteq> None)
                 @ required ''line'' (get_num args ''line'' \<noteq> None)
      in case (get_str args ''owner'', get_str args ''repo'', get_num args ''pull_number'',
               get_str args ''body'', get_str args ''commit_id'', get_str args ''path'',
               get_num args ''line'') of
           (Some ow, Some rp, Some n, Some b, Some c, Some p, Some l) \<Rightarrow>
             Inr \<lparr>ca_owner = ow, ca_repo = rp, ca_pull_number = n, ca_body = b, ca_commit_id = c,
                  ca_path = p, ca_line = l, ca_side = get_side args ''side'',
                  ca_start_line = get_num args ''start_line'',
                  ca_start_side = get_side args ''start_side''\<rparr>
         | _ \<Rightarrow> Inl issues)"

text \<open>
  A test double in the manner of the mock server of the tests: every request gets the
  response \<open>resp\<close>, a response body reads as \<open>parsed\<close>, and both response schemas answer
  with \<open>validate\<close>. The token is the one the tests set.
\<close>

definition test_env ::
  "response \<Rightarrow> (string + int jsval) \<Rightarrow> (int jsval \<Rightarrow> int zod_issue list + int jsval) \<Rightarrow> int env" where
  "test_env resp parsed validate =
     \<lparr>numops = int_ops,
      GITHUB_PERSONAL_ACCESS_TOKEN = ''test-token'',
      fetch = (\<lambda>_. Inr resp),
      response_json = (\<lambda>_. parsed),
      CreatePRReviewCommentSchema_parse = test_create_parse,
      UpdatePullRequestSchema_parse = test_update_parse,
      GitHubPRReviewCommentSchema_parse = validate,
      GitHubPullRequestSchema_parse = validate\<rparr>"

definition resp_422 :: response where
  "resp_422 = \<lparr>resp_status = 422,
               resp_statusText = ''Unprocessable Entity - Invalid commit SHA'',
               resp_body = []\<rparr>"

definition resp_201 :: response where
  \<open>resp_201 = \<lparr>resp_status = 201, resp_statusText = ''Created'', resp_body = ''{"id":1}''\<rparr>\<close>

definition accept_all :: "int jsval \<Rightarrow> int zod_issue list + int jsval" where
  "accept_all v = Inr v"

definition reject_login :: "int jsval \<Rightarrow> int zod_issue list + int jsval" where
  "reject_login v =
     Inl [\<lparr>issue_path = [PKey ''user'', PKey ''login''], issue_message = ''Required''\<rparr>]"

definition env_422 :: "int env" where
  "env_422 = test_env resp_422 (Inl ''Unexpected end of JSON input'') accept_all"

definition env_201 :: "int env" where
  "env_201 = test_env resp_201 (Inr (JObj [(''id'', JNum 1)])) accept_all"

definition env_201_bad :: "int env" where
  "env_201_bad = test_env resp_201 (Inr (JObj [(''id'', JNum 1)])) reject_login"

definition review_comment_call :: "int call_tool_request" where
  "review_comment_call =
     \<lparr>params_name = ''create_pr_review_comment'',
      params_arguments = Some
        [(''owner'', JStr ''o''), (''repo'', JStr ''r''), (''pull_number'', JNum 123),
         (''body'', JStr ''x''), (''commit_id'', JStr ''abc123''), (''path'', JStr ''f.ts''),
         (''line'', JNum 42)]\<rparr>"

section \<open>Facts about the serializer\<close>

lemma ser_None_iff: "ser ops gap ind v = None \<longleftrightarrow> v = JUndefined"
  by (cases v) simp_all

lemma members_Nil: "members ops gap ind [] = []"
  by (simp add: members_def)

lemma members_Cons:
  "members ops gap ind ((k, v) # ps) =
     (case ser ops gap ind v of None \<Rightarrow> [] | Some s \<Rightarrow> [(k, s)]) @ members ops gap ind ps"
  by (simp add: members_def)

lemma members_keys:
  "map fst (members ops gap ind ps) = map fst (filter (\<lambda>(k, v). v \<noteq> JUndefined) ps)"
proof (induction ps)
  case Nil
  show ?case by (simp add: members_Nil)
next
  case (Cons p ps)
  obtain k v where p: "p = (k, v)" by (cases p)
  show ?case
  proof (cases "v = JUndefined")
    case True
    with Cons p show ?thesis by (simp add: members_Cons)
  next
    case False
    then obtain s where "ser ops gap ind v = Some s"
      using ser_None_iff [of ops gap ind v] by (cases "ser ops gap ind v") auto
    with Cons p False show ?thesis by (simp add: members_Cons)
  qed
qed

lemma members_set:
  "(k, s) \<in> set (members ops gap ind ps)
     \<longleftrightarrow> (\<exists>v. (k, v) \<in> set ps \<and> ser ops gap ind v = Some s)"
proof (induction ps)
  case Nil
  show ?case by (simp add: members_Nil)
next
  case (Cons p ps)
  obtain k' v' where p: "p = (k', v')" by (cases p)
  show ?case
    using Cons p by (cases "ser ops gap ind v'") (auto simp add: members_Cons)
qed

lemma stringify_object:
  "JSON_stringify ops (JObj ps) =
     Some (wrap ''{'' ''}'' [] [] (map (member_text []) (members ops [] [] ps)))"
  by (simp add: JSON_stringify_def members_def)

lemma dec_int_123: "dec_int 123 = ''123''"
  by code_simp

lemma dec_int_42: "dec_int 42 = ''42''"
  by code_simp

section \<open>Facts about the two operations\<close>

lemma members_review_comment_object:
  "members ops [] [] (review_comment_object body commitId path line side startLine startSide) =
     [(''body'', QuoteJSONString body),
      (''commit_id'', QuoteJSONString commitId),
      (''path'', QuoteJSONString path),
      (''line'', if num_is_finite ops line then num_to_string ops line else ''null''),
      (''side'', QuoteJSONString (case side of None \<Rightarrow> ''RIGHT'' | Some s \<Rightarrow> side_text s))]
     @ (case startLine of None \<Rightarrow> []
        | Some n \<Rightarrow> [(''start_line'', if num_is_finite ops n then num_to_string ops n else ''null'')])
     @ (case startSide of None \<Rightarrow> []
        | Some s \<Rightarrow> [(''start_side'', QuoteJSONString (side_text s))])"
  by (simp add: members_def review_comment_object_def split: option.split)

lemma createPRReviewComment_request_body:
  "req_body (createPRReviewComment_request env owner repo pullNumber body commitId path line
        side startLine startSide)
     = Some (wrap ''{'' ''}'' [] [] (map (member_text [])
         (members (numops env) [] []
            (review_comment_object body commitId path line side startLine startSide))))"
  by (simp add: createPRReviewComment_request_def stringify_object)

lemma issued_createPRReviewComment:
  "issued (fst (createPRReviewComment env owner repo pullNumber body commitId path line side
       startLine startSide))
     = [createPRReviewComment_request env owner repo pullNumber body commitId path line side
          startLine startSide]"
  by (simp add: createPRReviewComment_def Let_def split: sum.split)

lemma issued_updatePullRequest:
  "issued (fst (updatePullRequest env owner repo pullNumber options))
     = [updatePullRequest_request env owner repo pullNumber options]"
  by (simp add: updatePullRequest_def Let_def split: sum.split)

text \<open>The definitions that the examples unfold.\<close>

lemmas request_defs = createPRReviewComment_request_def updatePullRequest_request_def
  request_headers_def review_comment_object_def

lemmas stringify_defs = JSON_stringify_def JSON_stringify_2_def wrap_def member_text_def
  QuoteJSONString_def quote_char_def

lemmas test_defs = env_422_def env_201_def env_201_bad_def test_env_def resp_422_def resp_201_def
  accept_all_def reject_login_def int_ops_def review_comment_call_def
  test_create_parse_def test_update_parse_def get_str_def get_num_def get_side_def required_def

section \<open>The claims\<close>

text \<open>
  C1. When the network call completes with a status outside 200 to 299, each of the two
  operations fails with the error whose message is \<^verbatim>\<open>GitHub API error: \<close> followed
  by the status text of the response. The response may be any, so its body plays no part;
  the network call is all the operation did, so the body is neither read nor handed to
  the response schema.
\<close>

theorem C1_non_2xx_fails:
  assumes "\<not> (200 \<le> resp_status resp \<and> resp_status resp < 300)"
  shows "(fetch env (createPRReviewComment_request env owner repo pullNumber body commitId path
             line side startLine startSide) = Inr resp \<longrightarrow>
          createPRReviewComment env owner repo pullNumber body commitId path line side
             startLine startSide =
            ([Fetch (createPRReviewComment_request env owner repo pullNumber body commitId path
                line side startLine startSide)],
             Inl (Error (''GitHub API error: '' @ resp_statusText resp))))
       \<and> (fetch env (updatePullRequest_request env owner repo pullNumber options) = Inr resp \<longrightarrow>
          updatePullRequest env owner repo pullNumber options =
            ([Fetch (updatePullRequest_request env owner repo pullNumber options)],
             Inl (Error (''GitHub API error: '' @ resp_statusText resp))))"
  using assms by (simp add: createPRReviewComment_def updatePullRequest_def ok_def Let_def)

theorem C1_non_2xx_fails_witness:
  "\<not> (200 \<le> resp_status resp_422 \<and> resp_status resp_422 < 300)
   \<and> fetch env_422 (createPRReviewComment_request env_422 ''o'' ''r'' 123 ''Invalid commit''
        ''invalid-sha'' ''src/file.ts'' 42 None None None) = Inr resp_422
   \<and> snd (createPRReviewComment env_422 ''o'' ''r'' 123 ''Invalid commit'' ''invalid-sha''
        ''src/file.ts'' 42 None None None)
       = Inl (Error ''GitHub API error: Unprocessable Entity - Invalid commit SHA'')
   \<and> validated (fst (createPRReviewComment env_422 ''o'' ''r'' 123 ''Invalid commit''
        ''invalid-sha'' ''src/file.ts'' 42 None None None)) = []
   \<and> fetch env_422 (updatePullRequest_request env_422 ''o'' ''r'' 123
        [(''title'', JStr ''Will fail'')]) = Inr resp_422
   \<and> snd (updatePullRequest env_422 ''o'' ''r'' 123 [(''title'', JStr ''Will fail'')])
       = Inl (Error ''GitHub API error: Unprocessable Entity - Invalid commit SHA'')
   \<and> validated (fst (updatePullRequest env_422 ''o'' ''r'' 123 [(''title'', JStr ''Will fail'')])) = []"
proof -
  have h: "\<not> (200 \<le> resp_status resp_422 \<and> resp_status resp_422 < 300)"
    by (simp add: resp_422_def)
  have f: "fetch env_422 r = Inr resp_422" for r
    by (simp add: env_422_def test_env_def)
  have t: "resp_statusText resp_422 = ''Unprocessable Entity - Invalid commit SHA''"
    by (simp add: resp_422_def)
  show ?thesis
    using h f t
      C1_non_2xx_fails [OF h, of env_422 "''o''" "''r''" 123 "''Invalid commit''" "''invalid-sha''"
        "''src/file.ts''" 42 None None None "[(''title'', JStr ''Will fail'')]"]
    by simp
qed

text \<open>
  C2. A response with a 2xx status whose parsed body fails the response schema: the
  operation itself throws the \<^verbatim>\<open>ZodError\<close> of the response schema, but the handler's
  \<^verbatim>\<open>catch\<close> block takes it for an error of the arguments and throws a plain error with
  the message \<^verbatim>\<open>Invalid arguments: user.login: Required\<close> instead. The error of the
  response schema does not reach the caller of the tool unchanged.
\<close>

theorem C2_response_error_rewritten:
  "snd (createPRReviewComment env_201_bad ''o'' ''r'' 123 ''x'' ''abc123'' ''f.ts'' 42 None None None)
     = Inl (ZodError [\<lparr>issue_path = [PKey ''user'', PKey ''login''], issue_message = ''Required''\<rparr>])
   \<and> handler env_201_bad review_comment_call
     = ([Fetch (createPRReviewComment_request env_201_bad ''o'' ''r'' 123 ''x'' ''abc123'' ''f.ts'' 42
           None None None),
         ReadJson resp_201,
         Validate GitHubPRReviewCommentSchema (JObj [(''id'', JNum 1)])],
        Inl (Error ''Invalid arguments: user.login: Required''))"
  by (simp add: handler_def handler_try_def handler_catch_def issue_text_def
      createPRReviewComment_def ok_def Let_def test_defs)

text \<open>
  C3. Every call of \<^verbatim>\<open>updatePullRequest\<close> issues one request, a PATCH, whose body is
  the serialization of the options object as it was passed. The keys written into that
  body are, in order, the keys of the options whose value is not \<^verbatim>\<open>undefined\<close>: an
  option that was not supplied has no member in the body, neither as \<^verbatim>\<open>null\<close> nor with
  a default, and every supplied option has one, whose text is the serialization of the
  value supplied.
\<close>

theorem C3_update_body_keys:
  "issued (fst (updatePullRequest env owner repo pullNumber options))
     = [updatePullRequest_request env owner repo pullNumber options]
   \<and> req_method (updatePullRequest_request env owner repo pullNumber options) = ''PATCH''
   \<and> req_body (updatePullRequest_request env owner repo pullNumber options)
     = JSON_stringify (numops env) (JObj options)
   \<and> JSON_stringify (numops env) (JObj options)
     = Some (wrap ''{'' ''}'' [] [] (map (member_text []) (members (numops env) [] [] options)))
   \<and> map fst (members (numops env) [] [] options)
     = map fst (filter (\<lambda>(k, v). v \<noteq> JUndefined) options)
   \<and> (\<forall>k s. (k, s) \<in> set (members (numops env) [] [] options)
          \<longleftrightarrow> (\<exists>v. (k, v) \<in> set options \<and> ser (numops env) [] [] v = Some s))"
proof -
  have "req_method (updatePullRequest_request env owner repo pullNumber options) = ''PATCH''"
    and "req_body (updatePullRequest_request env owner repo pullNumber options)
     = JSON_stringify (numops env) (JObj options)"
    by (simp_all add: updatePullRequest_request_def)
  then show ?thesis
    using issued_updatePullRequest [of env owner repo pullNumber options]
      stringify_object [of "numops env" options]
      members_keys [of "numops env" "[]" "[]" options]
      members_set [of _ _ "numops env" "[]" "[]" options]
    by simp
qed

theorem C3_update_body_keys_witness:
  \<open>req_body (updatePullRequest_request env_201 ''o'' ''r'' 123
       [(''title'', JUndefined), (''state'', JStr ''closed'')]) = Some ''{"state":"closed"}''
   \<and> map fst (members int_ops [] [] [(''title'', JUndefined), (''state'', JStr ''closed'')])
       = [''state'']\<close>
  using C3_update_body_keys [of env_201 "''o''" "''r''" 123
      "[(''title'', JUndefined), (''state'', JStr ''closed'')]"]
  by (simp add: stringify_defs test_defs)

text \<open>
  C4, as amended. In the body that \<^verbatim>\<open>createPRReviewComment\<close> sends, the member
  \<^verbatim>\<open>side\<close> is \<^verbatim>\<open>"RIGHT"\<close> exactly when the parameter was omitted or was passed as
  \<^verbatim>\<open>"RIGHT"\<close>; when the caller passes \<^verbatim>\<open>"LEFT"\<close> the member is \<^verbatim>\<open>"LEFT"\<close>.
\<close>

theorem C4_side_default:
  \<open>req_body (createPRReviewComment_request env owner repo pullNumber body commitId path line
        side startLine startSide)
     = Some (wrap ''{'' ''}'' [] [] (map (member_text [])
         (members (numops env) [] []
            (review_comment_object body commitId path line side startLine startSide))))
   \<and> (map_of (members (numops env) [] []
        (review_comment_object body commitId path line side startLine startSide)) ''side''
       = Some ''"RIGHT"'' \<longleftrightarrow> side = None \<or> side = Some RIGHT)
   \<and> map_of (members (numops env) [] []
        (review_comment_object body commitId path line (Some LEFT) startLine startSide)) ''side''
       = Some ''"LEFT"''\<close>
proof -
  have q: \<open>QuoteJSONString ''RIGHT'' = ''"RIGHT"''\<close> \<open>QuoteJSONString ''LEFT'' = ''"LEFT"''\<close>
    by (simp_all add: QuoteJSONString_def quote_char_def)
  have sent: \<open>map_of (members (numops env) [] []
        (review_comment_object body commitId path line side startLine startSide)) ''side''
       = Some ''"RIGHT"'' \<longleftrightarrow> side = None \<or> side = Some RIGHT\<close>
  proof (cases side)
    case None
    then show ?thesis by (simp add: members_review_comment_object q)
  next
    case (Some s)
    then show ?thesis
      by (cases s) (simp_all add: members_review_comment_object q)
  qed
  have left: \<open>map_of (members (numops env) [] []
        (review_comment_object body commitId path line (Some LEFT) startLine startSide)) ''side''
       = Some ''"LEFT"''\<close>
    by (simp add: members_review_comment_object q)
  from sent left show ?thesis
    using createPRReviewComment_request_body [of env owner repo pullNumber body commitId path
        line side startLine startSide]
    by blast
qed

theorem C4_side_default_witness:
  \<open>map_of (members (numops env_201) [] []
        (review_comment_object ''x'' ''abc123'' ''f.ts'' 42 None None None)) ''side''
       = Some ''"RIGHT"''
   \<and> map_of (members (numops env_201) [] []
        (review_comment_object ''x'' ''abc123'' ''f.ts'' 42 (Some RIGHT) None None)) ''side''
       = Some ''"RIGHT"''
   \<and> map_of (members (numops env_201) [] []
        (review_comment_object ''x'' ''abc123'' ''f.ts'' 42 (Some LEFT) None None)) ''side''
       = Some ''"LEFT"''
   \<and> req_body (createPRReviewComment_request env_201 ''o'' ''r'' 123 ''x'' ''abc123'' ''f.ts'' 42
        (Some LEFT) None None)
       = Some ''{"body":"x","commit_id":"abc123","path":"f.ts","line":42,"side":"LEFT"}''\<close>
proof -
  have l: \<open>members (numops env_201) [] []
        (review_comment_object ''x'' ''abc123'' ''f.ts'' 42 (Some LEFT) None None)
      = [(''body'', ''"x"''), (''commit_id'', ''"abc123"''), (''path'', ''"f.ts"''),
         (''line'', ''42''), (''side'', ''"LEFT"'')]\<close>
    by (simp add: members_review_comment_object stringify_defs test_defs dec_int_42)
  show ?thesis
    using C4_side_default [of env_201 "''o''" "''r''" 123 "''x''" "''abc123''" "''f.ts''" 42
        None None None]
      C4_side_default [of env_201 "''o''" "''r''" 123 "''x''" "''abc123''" "''f.ts''" 42
        "Some RIGHT" None None]
      C4_side_default [of env_201 "''o''" "''r''" 123 "''x''" "''abc123''" "''f.ts''" 42
        "Some LEFT" None None]
    by (simp add: l wrap_def member_text_def QuoteJSONString_def quote_char_def)
qed

text \<open>
  C4 as stated fails: with \<^verbatim>\<open>side\<close> passed as \<^verbatim>\<open>"RIGHT"\<close> the member is
  \<^verbatim>\<open>"RIGHT"\<close> although the parameter was not omitted.
\<close>

theorem C4_counterexample:
  \<open>\<not> (map_of (members (numops env_201) [] []
            (review_comment_object ''x'' ''abc123'' ''f.ts'' 42 (Some RIGHT) None None)) ''side''
          = Some ''"RIGHT"''
        \<longleftrightarrow> Some RIGHT = (None :: side option))\<close>
  by (simp add: members_def review_comment_object_def stringify_defs test_defs)

text \<open>
  C5, as amended. \<^verbatim>\<open>createPRReviewComment\<close> issues one request, a POST to the API host
  followed by \<^verbatim>\<open>/repos/{owner}/{repo}/pulls/{pullNumber}/comments\<close> with the parameters
  put in as they are. Its body is a JSON object with the members \<^verbatim>\<open>body\<close>,
  \<^verbatim>\<open>commit_id\<close>, \<^verbatim>\<open>path\<close>, \<^verbatim>\<open>line\<close> and \<^verbatim>\<open>side\<close>, taken from the parameters of
  these names (\<^verbatim>\<open>side\<close> with its default), followed by \<^verbatim>\<open>start_line\<close> exactly when
  \<^verbatim>\<open>startLine\<close> was supplied and by \<^verbatim>\<open>start_side\<close> exactly when \<^verbatim>\<open>startSide\<close> was.
\<close>

theorem C5_request_shape:
  "issued (fst (createPRReviewComment env owner repo pullNumber body commitId path line side
       startLine startSide))
     = [createPRReviewComment_request env owner repo pullNumber body commitId path line side
          startLine startSide]
   \<and> req_method (createPRReviewComment_request env owner repo pullNumber body commitId path line
        side startLine startSide) = ''POST''
   \<and> req_url (createPRReviewComment_request env owner repo pullNumber body commitId path line
        side startLine startSide)
     = ''https://api.github.com/repos/'' @ owner @ ''/'' @ repo @ ''/pulls/''
         @ num_to_string (numops env) pullNumber @ ''/comments''
   \<and> req_body (createPRReviewComment_request env owner repo pullNumber body commitId path line
        side startLine startSide)
     = Some (wrap ''{'' ''}'' [] [] (map (member_text [])
         (members (numops env) [] []
            (review_comment_object body commitId path line side startLine startSide))))
   \<and> members (numops env) [] []
        (review_comment_object body commitId path line side startLine startSide)
     = [(''body'', QuoteJSONString body),
        (''commit_id'', QuoteJSONString commitId),
        (''path'', QuoteJSONString path),
        (''line'', if num_is_finite (numops env) line then num_to_string (numops env) line
                   else ''null''),
        (''side'', QuoteJSONString (case side of None \<Rightarrow> ''RIGHT'' | Some s \<Rightarrow> side_text s))]
       @ (case startLine of None \<Rightarrow> []
          | Some n \<Rightarrow> [(''start_line'', if num_is_finite (numops env) n
                                        then num_to_string (numops env) n else ''null'')])
       @ (case startSide of None \<Rightarrow> []
          | Some s \<Rightarrow> [(''start_side'', QuoteJSONString (side_text s))])"
proof -
  have "req_method (createPRReviewComment_request env owner repo pullNumber body commitId
        path line side startLine startSide) = ''POST''"
    and "req_url (createPRReviewComment_request env owner repo pullNumber body commitId path line
        side startLine startSide)
     = ''https://api.github.com/repos/'' @ owner @ ''/'' @ repo @ ''/pulls/''
         @ num_to_string (numops env) pullNumber @ ''/comments''"
    by (simp_all add: createPRReviewComment_request_def)
  then show ?thesis
    using issued_createPRReviewComment [of env owner repo pullNumber body commitId path line side
        startLine startSide]
      createPRReviewComment_request_body [of env owner repo pullNumber body commitId path line
        side startLine startSide]
      members_review_comment_object [of "numops env" body commitId path line side startLine startSide]
    by simp
qed

theorem C5_request_shape_witness:
  \<open>req_url (createPRReviewComment_request env_201 ''test-owner'' ''test-repo'' 123
       ''Consider refactoring this section'' ''abc123'' ''src/file.ts'' 42 (Some RIGHT) (Some 40)
       (Some RIGHT))
     = ''https://api.github.com/repos/test-owner/test-repo/pulls/123/comments''
   \<and> req_body (createPRReviewComment_request env_201 ''test-owner'' ''test-repo'' 123
       ''Consider refactoring this section'' ''abc123'' ''src/file.ts'' 42 (Some RIGHT) (Some 40)
       (Some RIGHT))
     = Some ''{"body":"Consider refactoring this section","commit_id":"abc123","path":"src/file.ts","line":42,"side":"RIGHT","start_line":40,"start_side":"RIGHT"}''
   \<and> map fst (members (numops env_201) [] []
        (review_comment_object ''Consider refactoring this section'' ''abc123'' ''src/file.ts'' 42
           (Some RIGHT) (Some 40) (Some RIGHT)))
     = [''body'', ''commit_id'', ''path'', ''line'', ''side'', ''start_line'', ''start_side'']\<close>
proof -
  have "dec_int 40 = ''40''" by code_simp
  then show ?thesis
    using C5_request_shape [of env_201 "''test-owner''" "''test-repo''" 123
        "''Consider refactoring this section''" "''abc123''" "''src/file.ts''" 42 "Some RIGHT"
        "Some 40" "Some RIGHT"]
    by (simp add: stringify_defs test_defs dec_int_42 dec_int_123)
qed

text \<open>
  C5 as stated fails: for a single-line comment, with \<^verbatim>\<open>startLine\<close> and
  \<^verbatim>\<open>startSide\<close> omitted, the body has five keys and neither \<^verbatim>\<open>start_line\<close> nor
  \<^verbatim>\<open>start_side\<close>.
\<close>

theorem C5_counterexample:
  \<open>req_body (createPRReviewComment_request env_201 ''o'' ''r'' 123 ''x'' ''abc123'' ''f.ts'' 42
       None None None)
     = Some ''{"body":"x","commit_id":"abc123","path":"f.ts","line":42,"side":"RIGHT"}''
   \<and> map fst (members (numops env_201) [] []
        (review_comment_object ''x'' ''abc123'' ''f.ts'' 42 None None None))
     \<noteq> [''body'', ''commit_id'', ''path'', ''line'', ''side'', ''start_line'', ''start_side'']\<close>
  by (simp add: request_defs members_def stringify_defs test_defs dec_int_42)

text \<open>
  C6. A call of one of the two tools whose arguments the input schema of the tool rejects
  fails before any network call (the trace is empty) with the error whose message is
  \<^verbatim>\<open>Invalid arguments: \<close> followed by one entry per issue, the path joined by dots, a
  colon and a space, and the message, the entries joined by a comma and a space.
\<close>

theorem C6_invalid_arguments:
  assumes "params_arguments request = Some arguments"
    and "params_name request = ''update_pull_request''
           \<and> UpdatePullRequestSchema_parse env arguments = Inl issues
         \<or> params_name request = ''create_pr_review_comment''
           \<and> CreatePRReviewCommentSchema_parse env arguments = Inl issues"
  shows "handler env request =
           ([], Inl (Error (''Invalid arguments: '' @ join '', ''
              (map (\<lambda>e. join ''.'' (map (path_elem_text (numops env)) (issue_path e))
                          @ '': '' @ issue_message e) issues))))"
proof -
  have "issue_text (numops env) =
          (\<lambda>e. join ''.'' (map (path_elem_text (numops env)) (issue_path e))
                  @ '': '' @ issue_message e)"
    by (rule ext) (simp add: issue_text_def)
  with assms show ?thesis
    by (auto simp add: handler_def handler_try_def handler_catch_def)
qed

theorem C6_invalid_arguments_witness:
  "params_arguments \<lparr>params_name = ''update_pull_request'',
       params_arguments = Some [(''owner'', JStr ''o''), (''state'', JStr ''closed'')]\<rparr>
     = Some [(''owner'', JStr ''o''), (''state'', JStr ''closed'')]
   \<and> UpdatePullRequestSchema_parse env_201 [(''owner'', JStr ''o''), (''state'', JStr ''closed'')]
     = Inl [\<lparr>issue_path = [PKey ''repo''], issue_message = ''Required''\<rparr>,
            \<lparr>issue_path = [PKey ''pull_number''], issue_message = ''Required''\<rparr>]
   \<and> handler env_201 \<lparr>params_name = ''update_pull_request'',
       params_arguments = Some [(''owner'', JStr ''o''), (''state'', JStr ''closed'')]\<rparr>
     = ([], Inl (Error ''Invalid arguments: repo: Required, pull_number: Required''))"
proof -
  let ?args = "[(''owner'', JStr ''o''), (''state'', JStr ''closed'')] :: int jsobj"
  let ?request = "\<lparr>params_name = ''update_pull_request'', params_arguments = Some ?args\<rparr>"
  let ?issues = "[\<lparr>issue_path = [PKey ''repo''], issue_message = ''Required''\<rparr>,
                  \<lparr>issue_path = [PKey ''pull_number''], issue_message = ''Required''\<rparr>] :: int zod_issue list"
  have a: "params_arguments ?request = Some ?args" by simp
  have p: "UpdatePullRequestSchema_parse env_201 ?args = Inl ?issues"
    by (simp add: test_defs)
  have n: "params_name ?request = ''update_pull_request''
           \<and> UpdatePullRequestSchema_parse env_201 ?args = Inl ?issues
         \<or> params_name ?request = ''create_pr_review_comment''
           \<and> CreatePRReviewCommentSchema_parse env_201 ?args = Inl ?issues"
    using p by simp
  show ?thesis
    using a p C6_invalid_arguments [OF a n] by simp
qed

text \<open>
  C7, as amended. A call without arguments fails with \<^verbatim>\<open>Arguments are required\<close>. A
  call that has arguments and whose name is neither of the two tools fails with
  \<^verbatim>\<open>Unknown tool: \<close> followed by the name.
\<close>

theorem C7_dispatch_errors:
  "(params_arguments request = None \<longrightarrow>
      handler env request = ([], Inl (Error ''Arguments are required'')))
   \<and> (params_arguments request \<noteq> None
        \<and> params_name request \<noteq> ''update_pull_request''
        \<and> params_name request \<noteq> ''create_pr_review_comment'' \<longrightarrow>
      handler env request = ([], Inl (Error (''Unknown tool: '' @ params_name request))))"
proof (cases "params_arguments request")
  case None
  then show ?thesis
    by (simp add: handler_def handler_try_def handler_catch_def)
next
  case (Some arguments)
  then show ?thesis
    by (simp add: handler_def handler_try_def handler_catch_def)
qed

theorem C7_dispatch_errors_witness:
  "params_arguments \<lparr>params_name = ''update_pull_request'', params_arguments = (None :: int jsobj option)\<rparr> = None
   \<and> handler env_201 \<lparr>params_name = ''update_pull_request'', params_arguments = None\<rparr>
       = ([], Inl (Error ''Arguments are required''))
   \<and> params_arguments \<lparr>params_name = ''merge_pull_request'', params_arguments = Some ([] :: int jsobj)\<rparr> \<noteq> None
   \<and> params_name \<lparr>params_name = ''merge_pull_request'', params_arguments = Some ([] :: int jsobj)\<rparr>
       \<noteq> ''update_pull_request''
   \<and> params_name \<lparr>params_name = ''merge_pull_request'', params_arguments = Some ([] :: int jsobj)\<rparr>
       \<noteq> ''create_pr_review_comment''
   \<and> handler env_201 \<lparr>params_name = ''merge_pull_request'', params_arguments = Some []\<rparr>
       = ([], Inl (Error ''Unknown tool: merge_pull_request''))"
  using C7_dispatch_errors [of "\<lparr>params_name = ''update_pull_request'', params_arguments = None\<rparr>" env_201]
    C7_dispatch_errors [of "\<lparr>params_name = ''merge_pull_request'', params_arguments = Some []\<rparr>" env_201]
  by simp

text \<open>
  C7 as stated fails: a call with an unknown name and no arguments fails with
  \<^verbatim>\<open>Arguments are required\<close>, not with \<^verbatim>\<open>Unknown tool: no_such_tool\<close>.
\<close>

theorem C7_counterexample:
  "''no_such_tool'' \<noteq> ''update_pull_request''
   \<and> ''no_such_tool'' \<noteq> ''create_pr_review_comment''
   \<and> handler env_201 \<lparr>params_name = ''no_such_tool'', params_arguments = None\<rparr>
       = ([], Inl (Error ''Arguments are required''))
   \<and> handler env_201 \<lparr>params_name = ''no_such_tool'', params_arguments = None\<rparr>
       \<noteq> ([], Inl (Error ''Unknown tool: no_such_tool''))"
  by (simp add: handler_def handler_try_def handler_catch_def)

text \<open>
  C8. The request an operation issues is determined by its parameters, together with the
  token and the number primitives fixed at start-up: two invocations with the same
  parameters issue the same request (method, URL, headers and body text), whatever the
  network and the schemas answer in either of them.
\<close>

theorem C8_request_deterministic:
  assumes "numops env1 = numops env2"
    and "GITHUB_PERSONAL_ACCESS_TOKEN env1 = GITHUB_PERSONAL_ACCESS_TOKEN env2"
  shows "issued (fst (createPRReviewComment env1 owner repo pullNumber body commitId path line side
            startLine startSide))
         = issued (fst (createPRReviewComment env2 owner repo pullNumber body commitId path line
            side startLine startSide))
       \<and> issued (fst (updatePullRequest env1 owner repo pullNumber options))
         = issued (fst (updatePullRequest env2 owner repo pullNumber options))"
  using assms
  by (simp add: issued_createPRReviewComment issued_updatePullRequest
      createPRReviewComment_request_def updatePullRequest_request_def)

theorem C8_request_deterministic_witness:
  "numops env_422 = numops env_201
   \<and> GITHUB_PERSONAL_ACCESS_TOKEN env_422 = GITHUB_PERSONAL_ACCESS_TOKEN env_201
   \<and> snd (createPRReviewComment env_422 ''o'' ''r'' 123 ''x'' ''abc123'' ''f.ts'' 42 None None None)
       \<noteq> snd (createPRReviewComment env_201 ''o'' ''r'' 123 ''x'' ''abc123'' ''f.ts'' 42 None None None)
   \<and> issued (fst (createPRReviewComment env_422 ''o'' ''r'' 123 ''x'' ''abc123'' ''f.ts'' 42
         None None None))
       = issued (fst (createPRReviewComment env_201 ''o'' ''r'' 123 ''x'' ''abc123'' ''f.ts'' 42
         None None None))
   \<and> issued (fst (updatePullRequest env_422 ''o'' ''r'' 123 [(''state'', JStr ''closed'')]))
       = issued (fst (updatePullRequest env_201 ''o'' ''r'' 123 [(''state'', JStr ''closed'')]))"
proof -
  have n: "numops env_422 = numops env_201"
    and t: "GITHUB_PERSONAL_ACCESS_TOKEN env_422 = GITHUB_PERSONAL_ACCESS_TOKEN env_201"
    by (simp_all add: env_422_def env_201_def test_env_def)
  have d: "snd (createPRReviewComment env_422 ''o'' ''r'' 123 ''x'' ''abc123'' ''f.ts'' 42 None None None)
       \<noteq> snd (createPRReviewComment env_201 ''o'' ''r'' 123 ''x'' ''abc123'' ''f.ts'' 42 None None None)"
    by (simp add: createPRReviewComment_def ok_def Let_def test_defs)
  show ?thesis
    using n t d
      C8_request_deterministic [OF n t, of "''o''" "''r''" 123 "''x''" "''abc123''" "''f.ts''" 42
        None None None "[(''state'', JStr ''closed'')]"]
    by simp
qed

text \<open>
  C9. The check for arguments comes before the dispatch on the name: a call without
  arguments fails with \<^verbatim>\<open>Arguments are required\<close> whatever its name, before any network
  call, and never with \<^verbatim>\<open>Unknown tool\<close>.
\<close>

theorem C9_arguments_checked_first:
  assumes "params_arguments request = None"
  shows "handler env request = ([], Inl (Error ''Arguments are required''))
       \<and> snd (handler env request) \<noteq> Inl (Error (''Unknown tool: '' @ params_name request))"
  using assms by (simp add: handler_def handler_try_def handler_catch_def)

theorem C9_arguments_checked_first_witness:
  "params_arguments \<lparr>params_name = ''no_such_tool'', params_arguments = (None :: int jsobj option)\<rparr> = None
   \<and> handler env_201 \<lparr>params_name = ''no_such_tool'', params_arguments = None\<rparr>
       = ([], Inl (Error ''Arguments are required''))"
  using C9_arguments_checked_first [of "\<lparr>params_name = ''no_such_tool'', params_arguments = None\<rparr>" env_201]
  by simp

text \<open>
  C10. With an empty options object \<^verbatim>\<open>updatePullRequest\<close> still issues its request, a
  PATCH whose body is the text \<^verbatim>\<open>{}\<close>, and raises no error of its own: when the
  network answers with a 2xx response whose body passes the response schema, the call
  returns the validated result.
\<close>

theorem C10_empty_options:
  "issued (fst (updatePullRequest env owner repo pullNumber []))
     = [\<lparr>req_method = ''PATCH'',
         req_url = ''https://api.github.com/repos/'' @ owner @ ''/'' @ repo @ ''/pulls/''
                     @ num_to_string (numops env) pullNumber,
         req_headers = request_headers (GITHUB_PERSONAL_ACCESS_TOKEN env),
         req_body = Some ''{}''\<rparr>]
   \<and> (\<forall>resp v pullRequest.
        fetch env (updatePullRequest_request env owner repo pullNumber []) = Inr resp
        \<and> ok resp \<and> response_json env resp = Inr v
        \<and> GitHubPullRequestSchema_parse env v = Inr pullRequest \<longrightarrow>
        snd (updatePullRequest env owner repo pullNumber []) = Inr pullRequest)"
proof -
  have "issued (fst (updatePullRequest env owner repo pullNumber []))
     = [\<lparr>req_method = ''PATCH'',
         req_url = ''https://api.github.com/repos/'' @ owner @ ''/'' @ repo @ ''/pulls/''
                     @ num_to_string (numops env) pullNumber,
         req_headers = request_headers (GITHUB_PERSONAL_ACCESS_TOKEN env),
         req_body = Some ''{}''\<rparr>]"
    by (simp add: issued_updatePullRequest updatePullRequest_request_def JSON_stringify_def
        wrap_def)
  moreover have "snd (updatePullRequest env owner repo pullNumber []) = Inr pullRequest"
    if "fetch env (updatePullRequest_request env owner repo pullNumber []) = Inr resp"
      and "ok resp" and "response_json env resp = Inr v"
      and "GitHubPullRequestSchema_parse env v = Inr pullRequest"
    for resp v pullRequest
    using that by (simp add: updatePullRequest_def Let_def)
  ultimately show ?thesis by blast
qed

theorem C10_empty_options_witness:
  "fetch env_201 (updatePullRequest_request env_201 ''o'' ''r'' 123 []) = Inr resp_201
   \<and> ok resp_201 \<and> response_json env_201 resp_201 = Inr (JObj [(''id'', JNum 1)])
   \<and> GitHubPullRequestSchema_parse env_201 (JObj [(''id'', JNum 1)]) = Inr (JObj [(''id'', JNum 1)])
   \<and> map req_body (issued (fst (updatePullRequest env_201 ''o'' ''r'' 123 []))) = [Some ''{}'']
   \<and> map req_url (issued (fst (updatePullRequest env_201 ''o'' ''r'' 123 [])))
       = [''https://api.github.com/repos/o/r/pulls/123'']
   \<and> snd (updatePullRequest env_201 ''o'' ''r'' 123 []) = Inr (JObj [(''id'', JNum 1)])"
proof -
  have h: "fetch env_201 (updatePullRequest_request env_201 ''o'' ''r'' 123 []) = Inr resp_201"
    "ok resp_201" "response_json env_201 resp_201 = Inr (JObj [(''id'', JNum 1)])"
    "GitHubPullRequestSchema_parse env_201 (JObj [(''id'', JNum 1)]) = Inr (JObj [(''id'', JNum 1)])"
    by (simp_all add: ok_def test_defs)
  have n: "num_to_string (numops env_201) 123 = ''123''"
    by (simp add: test_defs dec_int_123)
  show ?thesis
    using h n C10_empty_options [of env_201 "''o''" "''r''" 123]
    by simp
qed

end
